theory Spec2Isabelle
  imports Main "HOL-Library.Sublist"
begin

section \<open>A shallow embedding of the stack machine of stack.py\<close>

text \<open>
  The program is a small Python stack machine: a size-limited \<open>Stack\<close>, an
  \<open>Instruction\<close> (a name out of the set \<open>INSTRUCTIONS\<close> and an optional value) and a
  \<open>StackMachine\<close> whose \<open>run\<close> method fetches the instruction at the program counter,
  looks the method of that name up and calls it, then adds one to the counter.

  Python values that can reach the stack are integers (unbounded) and \<open>None\<close>: the value of a
  \<open>loadcon\<close> instruction built without one is \<open>None\<close>, and \<open>Stack.pop\<close> returns
  \<open>None\<close> on an empty stack. Exceptions are values of the type \<open>error\<close>.
  The text that \<open>logging\<close>, \<open>display\<close> and the full-stack message of \<open>push\<close> send to the
  console never flows back into the machine and is left out; the values printed by the
  \<open>write\<close> instruction are collected, in order, in the field \<open>written\<close>.
\<close>

subsection \<open>Values and exceptions\<close>

datatype pyval = PyNone | PyInt int

datatype error =
    StackElementsExceedLimit        \<comment> \<open>\<open>Exception("Stack elements exceed stack size limit")\<close>\<close>
  | InvalidInstruction string       \<comment> \<open>\<open>Exception("Invalid instruction: ", instruction_name)\<close>\<close>
  | UnexpectedInstructionValue      \<comment> \<open>\<open>Exception("Unexpected instruction value given for non LOADCON call")\<close>\<close>
  | IndexError                      \<comment> \<open>list index out of range\<close>
  | TypeError                       \<comment> \<open>arithmetic or ordering on \<open>None\<close>, or calling \<open>None\<close>\<close>

definition TRUE :: pyval where
  "TRUE = PyInt 1"

definition FALSE :: pyval where
  "FALSE = PyInt 0"

text \<open>\<open>a + b\<close>, \<open>a * b\<close> and \<open>a < b\<close> of Python raise \<open>TypeError\<close> when an operand is \<open>None\<close>.\<close>

fun py_add :: "pyval \<Rightarrow> pyval \<Rightarrow> error + pyval" where
  "py_add (PyInt a) (PyInt b) = Inr (PyInt (a + b))"
| "py_add _ _ = Inl TypeError"

fun py_mul :: "pyval \<Rightarrow> pyval \<Rightarrow> error + pyval" where
  "py_mul (PyInt a) (PyInt b) = Inr (PyInt (a * b))"
| "py_mul _ _ = Inl TypeError"

fun py_less :: "pyval \<Rightarrow> pyval \<Rightarrow> error + bool" where
  "py_less (PyInt a) (PyInt b) = Inr (a < b)"
| "py_less _ _ = Inl TypeError"

text \<open>\<open>self._program_counter += offset_index\<close>: the counter is an integer, the offset a popped value.\<close>

fun pc_add :: "int \<Rightarrow> pyval \<Rightarrow> error + int" where
  "pc_add pc (PyInt k) = Inr (pc + k)"
| "pc_add pc PyNone = Inl TypeError"

text \<open>\<open>xs[i]\<close> of a Python list: a negative index counts from the end, and an index outside
  \<open>[-len(xs), len(xs))\<close> raises \<open>IndexError\<close>.\<close>

definition py_getitem :: "'a list \<Rightarrow> int \<Rightarrow> error + 'a" where
  "py_getitem xs i =
     (if 0 \<le> i \<and> i < int (length xs) then Inr (xs ! nat i)
      else if i < 0 \<and> - int (length xs) \<le> i then Inr (xs ! nat (int (length xs) + i))
      else Inl IndexError)"

subsection \<open>class Stack\<close>

record Stack =
  stack_elements :: "pyval list"      \<comment> \<open>the top of the stack is the end of the list\<close>
  size_limit :: int

definition Stack_init :: "int \<Rightarrow> pyval list \<Rightarrow> error + Stack" where
  "Stack_init lim elements =
     (if int (length elements) > lim then Inl StackElementsExceedLimit
      else Inr \<lparr>stack_elements = (if length elements > 0 then [] @ elements else []),
                size_limit = lim\<rparr>)"

definition pop :: "Stack \<Rightarrow> pyval \<times> Stack" where
  "pop s =
     (if length (stack_elements s) > 0
      then (last (stack_elements s), s\<lparr>stack_elements := butlast (stack_elements s)\<rparr>)
      else (PyNone, s))"

definition push :: "pyval \<Rightarrow> Stack \<Rightarrow> Stack" where
  "push elem s =
     (if int (length (stack_elements s)) + 1 > size_limit s then s
      else s\<lparr>stack_elements := stack_elements s @ [elem]\<rparr>)"

definition len :: "Stack \<Rightarrow> nat" where
  "len s = length (stack_elements s)"

text \<open>A sequence of calls on one stack, for statements about every such sequence.\<close>

datatype stack_op = Push pyval | Pop

fun apply_op :: "stack_op \<Rightarrow> Stack \<Rightarrow> Stack" where
  "apply_op (Push v) s = push v s"
| "apply_op Pop s = snd (pop s)"

definition apply_ops :: "stack_op list \<Rightarrow> Stack \<Rightarrow> Stack" where
  "apply_ops ops s = fold apply_op ops s"

subsection \<open>class Instruction\<close>

definition INSTRUCTIONS :: "string list" where
  "INSTRUCTIONS =
     [''add'', ''negate'', ''equal'', ''zero'', ''one'', ''loadcon'', ''br'', ''br_false'',
      ''dup'', ''mpy'', ''write'', ''swap'', ''less'']"

record Instruction =
  instruction_name :: string
  instruction_value :: pyval

text \<open>\<open>"loadcon" not in instruction_name\<close> is a substring test on strings.\<close>

definition Instruction_init :: "string \<Rightarrow> pyval \<Rightarrow> error + Instruction" where
  "Instruction_init name v =
     (if name \<notin> set INSTRUCTIONS then Inl (InvalidInstruction name)
      else if \<not> sublist ''loadcon'' name \<and> v \<noteq> PyNone then Inl UnexpectedInstructionValue
      else Inr \<lparr>instruction_name = name, instruction_value = v\<rparr>)"

subsection \<open>class StackMachine\<close>

record StackMachine =
  value_stack :: Stack
  machine_size_limit :: int
  instructions :: "Instruction list"
  program_counter :: int
  written :: "pyval list"

definition StackMachine_init :: "Instruction list \<Rightarrow> int \<Rightarrow> error + StackMachine" where
  "StackMachine_init instrs stack_size =
     (case Stack_init stack_size [] of
        Inl e \<Rightarrow> Inl e
      | Inr s \<Rightarrow> Inr \<lparr>value_stack = s, machine_size_limit = stack_size,
                      instructions = instrs, program_counter = 0, written = []\<rparr>)"

definition loadcon :: "pyval \<Rightarrow> StackMachine \<Rightarrow> error + StackMachine" where
  "loadcon v m = Inr (m\<lparr>value_stack := push v (value_stack m)\<rparr>)"

definition br :: "StackMachine \<Rightarrow> error + StackMachine" where
  "br m =
     (if len (value_stack m) < 1 then Inr m
      else
        let (offset_index, s1) = pop (value_stack m) in
        (case pc_add (program_counter m) offset_index of
           Inl e \<Rightarrow> Inl e
         | Inr pc \<Rightarrow> Inr (m\<lparr>value_stack := s1, program_counter := pc\<rparr>)))"

definition br_false :: "StackMachine \<Rightarrow> error + StackMachine" where
  "br_false m =
     (if len (value_stack m) < 2 then Inr m
      else
        let (offset_index, s1) = pop (value_stack m);
            (check_condition, s2) = pop s1 in
        if check_condition \<noteq> TRUE
        then (case pc_add (program_counter m) offset_index of
                Inl e \<Rightarrow> Inl e
              | Inr pc \<Rightarrow> Inr (m\<lparr>value_stack := s2, program_counter := pc\<rparr>))
        else Inr (m\<lparr>value_stack := s2\<rparr>))"

definition add :: "StackMachine \<Rightarrow> error + StackMachine" where
  "add m =
     (if len (value_stack m) < 2 then Inr m
      else
        let (value_1, s1) = pop (value_stack m);
            (value_2, s2) = pop s1 in
        (case py_add value_1 value_2 of
           Inl e \<Rightarrow> Inl e
         | Inr r \<Rightarrow> Inr (m\<lparr>value_stack := push r s2\<rparr>)))"

definition negate :: "StackMachine \<Rightarrow> error + StackMachine" where
  "negate m =
     (if len (value_stack m) < 1 then Inr m
      else
        let (v, s1) = pop (value_stack m) in
        (case py_mul v (PyInt (- 1)) of
           Inl e \<Rightarrow> Inl e
         | Inr value_1 \<Rightarrow> Inr (m\<lparr>value_stack := push value_1 s1\<rparr>)))"

definition equal :: "StackMachine \<Rightarrow> error + StackMachine" where
  "equal m =
     (if len (value_stack m) < 2 then Inr m
      else
        let (value_1, s1) = pop (value_stack m);
            (value_2, s2) = pop s1 in
        if value_1 = value_2 then Inr (m\<lparr>value_stack := push TRUE s2\<rparr>)
        else Inr (m\<lparr>value_stack := push FALSE s2\<rparr>))"

definition less :: "StackMachine \<Rightarrow> error + StackMachine" where
  "less m =
     (if len (value_stack m) < 2 then Inr m
      else
        let (top, s1) = pop (value_stack m);
            (second_top, s2) = pop s1 in
        (case py_less second_top top of
           Inl e \<Rightarrow> Inl e
         | Inr b \<Rightarrow> if b then Inr (m\<lparr>value_stack := push TRUE s2\<rparr>)
                    else Inr (m\<lparr>value_stack := push FALSE s2\<rparr>)))"

definition swap :: "StackMachine \<Rightarrow> error + StackMachine" where
  "swap m =
     (if len (value_stack m) < 2 then Inr m
      else
        let (value_1, s1) = pop (value_stack m);
            (value_2, s2) = pop s1 in
        Inr (m\<lparr>value_stack := push value_2 (push value_1 s2)\<rparr>))"

definition mpy :: "StackMachine \<Rightarrow> error + StackMachine" where
  "mpy m =
     (if len (value_stack m) < 2 then Inr m
      else
        let (value_1, s1) = pop (value_stack m);
            (value_2, s2) = pop s1 in
        (case py_mul value_1 value_2 of
           Inl e \<Rightarrow> Inl e
         | Inr r \<Rightarrow> Inr (m\<lparr>value_stack := push r s2\<rparr>)))"

definition zero :: "StackMachine \<Rightarrow> error + StackMachine" where
  "zero m = Inr (m\<lparr>value_stack := push (PyInt 0) (value_stack m)\<rparr>)"

definition one :: "StackMachine \<Rightarrow> error + StackMachine" where
  "one m = Inr (m\<lparr>value_stack := push (PyInt 1) (value_stack m)\<rparr>)"

definition "write" :: "StackMachine \<Rightarrow> error + StackMachine" where
  "write m =
     (if len (value_stack m) < 1 then Inr m
      else
        let (v, s1) = pop (value_stack m) in
        Inr (m\<lparr>value_stack := s1, written := written m @ [v]\<rparr>))"

definition dup :: "StackMachine \<Rightarrow> error + StackMachine" where
  "dup m =
     (if len (value_stack m) < 1 then Inr m
      else
        let (v, s1) = pop (value_stack m) in
        Inr (m\<lparr>value_stack := push v (push v s1)\<rparr>))"

text \<open>
  The body of one iteration of \<open>run\<close> after the fetch:
  \<open>func = getattr(self, name, None)\<close>, the call (with the value for \<open>loadcon\<close>), then
  \<open>self._program_counter += 1\<close>. The thirteen names of \<open>INSTRUCTIONS\<close> are the only ones an
  \<open>Instruction\<close> can carry; for any other name the lookup is modelled by its default \<open>None\<close>,
  whose call raises \<open>TypeError\<close>.
\<close>

definition getattr :: "string \<Rightarrow> (StackMachine \<Rightarrow> error + StackMachine) option" where
  "getattr name =
     (if name = ''add'' then Some add
      else if name = ''negate'' then Some negate
      else if name = ''equal'' then Some equal
      else if name = ''zero'' then Some zero
      else if name = ''one'' then Some one
      else if name = ''br'' then Some br
      else if name = ''br_false'' then Some br_false
      else if name = ''dup'' then Some dup
      else if name = ''mpy'' then Some mpy
      else if name = ''write'' then Some write
      else if name = ''swap'' then Some swap
      else if name = ''less'' then Some less
      else None)"

definition execute :: "Instruction \<Rightarrow> StackMachine \<Rightarrow> error + StackMachine" where
  "execute current_instruction m =
     (case (if instruction_name current_instruction = ''loadcon''
            then loadcon (instruction_value current_instruction) m
            else (case getattr (instruction_name current_instruction) of
                    None \<Rightarrow> Inl TypeError
                  | Some func \<Rightarrow> func m)) of
        Inl e \<Rightarrow> Inl e
      | Inr m' \<Rightarrow> Inr (m'\<lparr>program_counter := program_counter m' + 1\<rparr>))"

text \<open>
  The \<open>while True\<close> loop of \<open>run\<close>. It can run forever, so it takes fuel: \<open>None\<close> means that
  the loop has not ended within the given number of iterations, \<open>Some (Inl e)\<close> that it
  raised \<open>e\<close>, \<open>Some (Inr m)\<close> that it reached \<open>break\<close> in state \<open>m\<close>.
\<close>

fun run :: "nat \<Rightarrow> StackMachine \<Rightarrow> (error + StackMachine) option" where
  "run 0 m = None"
| "run (Suc fuel) m =
     (if \<not> (program_counter m > int (length (instructions m)) - 1)
      then (case py_getitem (instructions m) (program_counter m) of
              Inl e \<Rightarrow> Some (Inl e)
            | Inr current_instruction \<Rightarrow>
                (case execute current_instruction m of
                   Inl e \<Rightarrow> Some (Inl e)
                 | Inr m' \<Rightarrow> run fuel m'))
      else Some (Inr m))"

text \<open>
  What \<open>main\<close> does with a list of instructions: \<open>sm = StackMachine(instructions)\<close> (here
  with the stack size as a parameter), then \<open>sm.run()\<close>.
\<close>

definition run_program :: "nat \<Rightarrow> Instruction list \<Rightarrow> int \<Rightarrow> (error + StackMachine) option" where
  "run_program fuel instrs stack_size =
     (case StackMachine_init instrs stack_size of
        Inl e \<Rightarrow> Some (Inl e)
      | Inr sm \<Rightarrow> run fuel sm)"

text \<open>
  Instruction objects as \<open>Instruction(name)\<close> and \<open>Instruction("loadcon", k)\<close> build them
  (see \<open>Instruction_init_accepts\<close> below), for writing programs down.
\<close>

abbreviation Instr :: "string \<Rightarrow> Instruction" where
  "Instr name \<equiv> \<lparr>instruction_name = name, instruction_value = PyNone\<rparr>"

abbreviation Loadcon :: "int \<Rightarrow> Instruction" where
  "Loadcon k \<equiv> \<lparr>instruction_name = ''loadcon'', instruction_value = PyInt k\<rparr>"

section \<open>The size limit of the stack\<close>

lemma push_within_limit:
  "int (len s) \<le> size_limit s \<Longrightarrow>
     int (len (push v s)) \<le> size_limit s \<and> size_limit (push v s) = size_limit s"
  by (simp add: push_def len_def)

lemma pop_within_limit:
  "int (len s) \<le> size_limit s \<Longrightarrow>
     int (len (snd (pop s))) \<le> size_limit s \<and> size_limit (snd (pop s)) = size_limit s"
  by (cases "stack_elements s" rule: rev_cases) (simp_all add: pop_def len_def)

lemma apply_op_within_limit:
  "int (len s) \<le> size_limit s \<Longrightarrow>
     int (len (apply_op x s)) \<le> size_limit s \<and> size_limit (apply_op x s) = size_limit s"
  by (cases x) (simp_all add: push_within_limit pop_within_limit)

lemma apply_ops_within_limit:
  "int (len s) \<le> size_limit s \<Longrightarrow>
     int (len (apply_ops ops s)) \<le> size_limit s \<and> size_limit (apply_ops ops s) = size_limit s"
proof (induction ops arbitrary: s)
  case Nil
  then show ?case by (simp add: apply_ops_def)
next
  case (Cons x ops)
  have step: "int (len (apply_op x s)) \<le> size_limit (apply_op x s)"
    using apply_op_within_limit [OF Cons.prems] by simp
  have "apply_ops (x # ops) s = apply_ops ops (apply_op x s)"
    by (simp add: apply_ops_def)
  then show ?case
    using Cons.IH [OF step] apply_op_within_limit [OF Cons.prems, of x] by simp
qed

lemma Stack_init_within_limit:
  "Stack_init c es = Inr s \<Longrightarrow>
     stack_elements s = es \<and> size_limit s = c \<and> int (len s) \<le> size_limit s"
  by (auto simp: Stack_init_def len_def split: if_splits)

lemma pushes_below_limit:
  "int (length (stack_elements s) + length vs) \<le> size_limit s \<Longrightarrow>
     stack_elements (apply_ops (map Push vs) s) = stack_elements s @ vs"
proof (induction vs arbitrary: s)
  case Nil
  then show ?case by (simp add: apply_ops_def)
next
  case (Cons v vs)
  have p: "push v s = s\<lparr>stack_elements := stack_elements s @ [v]\<rparr>"
    using Cons.prems by (simp add: push_def)
  have "apply_ops (map Push (v # vs)) s = apply_ops (map Push vs) (push v s)"
    by (simp add: apply_ops_def)
  moreover have "stack_elements (apply_ops (map Push vs) (push v s)) = stack_elements (push v s) @ vs"
    using Cons.prems by (intro Cons.IH) (simp add: p)
  ultimately show ?case by (simp add: p)
qed

text \<open>
  C6. A stack built by \<open>Stack(c, es)\<close> and then put through any sequence of \<open>push\<close> and
  \<open>pop\<close> calls never holds more than \<open>c\<close> elements; a \<open>push\<close> when it holds exactly \<open>c\<close>
  returns the stack as it was (no exception, same elements, same length); and pushes that
  keep the count within \<open>c\<close> are all stored, so that on a stack built empty the length is
  the number of pushes.
\<close>

theorem stack_size_bounded:
  assumes "Stack_init c es = Inr s"
  shows "int (len (apply_ops ops s)) \<le> c \<and>
         (int (len (apply_ops ops s)) = c \<longrightarrow> push v (apply_ops ops s) = apply_ops ops s) \<and>
         (int (length es + length vs) \<le> c \<longrightarrow>
            stack_elements (apply_ops (map Push vs) s) = es @ vs \<and>
            len (apply_ops (map Push vs) s) = length es + length vs)"
proof -
  have s: "stack_elements s = es" "size_limit s = c" "int (len s) \<le> size_limit s"
    using Stack_init_within_limit [OF assms] by simp_all
  have b: "int (len (apply_ops ops s)) \<le> size_limit s"
    "size_limit (apply_ops ops s) = size_limit s"
    using apply_ops_within_limit [OF s(3), of ops] by simp_all
  have 1: "int (len (apply_ops ops s)) \<le> c"
    using b s by simp
  have 2: "int (len (apply_ops ops s)) = c \<longrightarrow> push v (apply_ops ops s) = apply_ops ops s"
    using b s by (simp add: push_def len_def)
  have 3: "int (length es + length vs) \<le> c \<longrightarrow>
           stack_elements (apply_ops (map Push vs) s) = es @ vs \<and>
           len (apply_ops (map Push vs) s) = length es + length vs"
    using pushes_below_limit [of s vs] s by (simp add: len_def)
  show ?thesis
    using 1 2 3 by blast
qed

theorem stack_size_bounded_witness:
  "Stack_init 2 [] = Inr \<lparr>stack_elements = [], size_limit = 2\<rparr> \<and>
   int (len (apply_ops [Push (PyInt 7), Pop, Push (PyInt 8), Push (PyInt 9), Push (PyInt 10)]
              \<lparr>stack_elements = [], size_limit = 2\<rparr>)) = 2 \<and>
   push (PyInt 11)
     (apply_ops [Push (PyInt 7), Pop, Push (PyInt 8), Push (PyInt 9), Push (PyInt 10)]
        \<lparr>stack_elements = [], size_limit = 2\<rparr>) =
   apply_ops [Push (PyInt 7), Pop, Push (PyInt 8), Push (PyInt 9), Push (PyInt 10)]
     \<lparr>stack_elements = [], size_limit = 2\<rparr> \<and>
   len (apply_ops (map Push [PyInt 3, PyInt 4]) \<lparr>stack_elements = [], size_limit = 2\<rparr>) = 2"
proof -
  have h: "Stack_init 2 [] = Inr \<lparr>stack_elements = [], size_limit = 2\<rparr>"
    by (simp add: Stack_init_def)
  have e: "int (len (apply_ops [Push (PyInt 7), Pop, Push (PyInt 8), Push (PyInt 9), Push (PyInt 10)]
              \<lparr>stack_elements = [], size_limit = 2\<rparr>)) = 2"
    by (simp add: apply_ops_def push_def pop_def len_def)
  show ?thesis
    using h e
      stack_size_bounded [OF h,
        of "[Push (PyInt 7), Pop, Push (PyInt 8), Push (PyInt 9), Push (PyInt 10)]"
           "PyInt 11" "[PyInt 3, PyInt 4]"]
    by simp
qed

text \<open>
  C10. \<open>dup\<close> on a stack that is not empty and holds exactly \<open>size_limit\<close> elements
  leaves the machine as it was: the popped top goes back, the second \<open>push\<close> finds the
  stack full and drops the copy.
\<close>

theorem dup_on_full_stack:
  assumes nonempty: "stack_elements (value_stack m) \<noteq> []"
    and full: "int (len (value_stack m)) = size_limit (value_stack m)"
  shows "dup m = Inr m"
proof -
  obtain xs x where xs: "stack_elements (value_stack m) = xs @ [x]"
    using nonempty by (cases "stack_elements (value_stack m)" rule: rev_cases) auto
  have lim: "size_limit (value_stack m) = int (length xs) + 1"
    using full xs by (simp add: len_def)
  have "push x (push x (snd (pop (value_stack m)))) = value_stack m"
    using xs lim by (simp add: pop_def push_def)
  moreover have "fst (pop (value_stack m)) = x"
    using xs by (simp add: pop_def)
  ultimately show ?thesis
    using xs by (simp add: dup_def len_def split_beta)
qed

theorem dup_on_full_stack_witness:
  "dup \<lparr>value_stack = \<lparr>stack_elements = [PyInt 4, PyInt 7], size_limit = 2\<rparr>,
        machine_size_limit = 2,
        instructions = [\<lparr>instruction_name = ''dup'', instruction_value = PyNone\<rparr>],
        program_counter = 0, written = []\<rparr> =
   Inr \<lparr>value_stack = \<lparr>stack_elements = [PyInt 4, PyInt 7], size_limit = 2\<rparr>,
        machine_size_limit = 2,
        instructions = [\<lparr>instruction_name = ''dup'', instruction_value = PyNone\<rparr>],
        program_counter = 0, written = []\<rparr>"
  using dup_on_full_stack
    [of "\<lparr>value_stack = \<lparr>stack_elements = [PyInt 4, PyInt 7], size_limit = 2\<rparr>,
          machine_size_limit = 2,
          instructions = [\<lparr>instruction_name = ''dup'', instruction_value = PyNone\<rparr>],
          program_counter = 0, written = []\<rparr>"]
  by (simp add: len_def)

section \<open>Construction of instructions\<close>

lemma not_loadcon_substring:
  "name \<in> set INSTRUCTIONS \<Longrightarrow> name \<noteq> ''loadcon'' \<Longrightarrow> \<not> sublist ''loadcon'' name"
  by (auto simp: INSTRUCTIONS_def sublist_code)

lemma Instruction_init_accepts:
  "Instruction_init ''loadcon'' (PyInt k) = Inr (Loadcon k)"
  "name \<in> set INSTRUCTIONS \<Longrightarrow> Instruction_init name PyNone = Inr (Instr name)"
  by (simp_all add: Instruction_init_def INSTRUCTIONS_def)

text \<open>
  C3. The claim is that \<open>Instruction("loadcon")\<close>, with no value, fails at construction.
  The constructor only tests the other direction (a value on an instruction that is not
  \<open>loadcon\<close>): it returns an instruction whose value is \<open>None\<close>. Running it pushes \<open>None\<close>,
  and the first arithmetic on that raises \<open>TypeError\<close> during \<open>run\<close>.
\<close>

theorem loadcon_without_value_constructed:
  "Instruction_init ''loadcon'' PyNone = Inr (Instr ''loadcon'') \<and>
   run_program 2 [Instr ''loadcon'', Instr ''negate''] 10 = Some (Inl TypeError)"
  by (simp add: Instruction_init_def INSTRUCTIONS_def run_program_def StackMachine_init_def
      Stack_init_def eval_nat_numeral execute_def getattr_def py_getitem_def loadcon_def
      negate_def push_def pop_def len_def)

text \<open>
  C8. A name outside \<open>INSTRUCTIONS\<close> makes the constructor raise the invalid-instruction
  exception, and a name of \<open>INSTRUCTIONS\<close> other than \<open>loadcon\<close> together with a value that
  is not \<open>None\<close> makes it raise the unexpected-value exception. Either way no instruction
  object exists afterwards, so nothing is left to fail during \<open>run\<close>: whenever the name is
  not \<open>loadcon\<close> and a value is given, the constructor returns an error.
\<close>

theorem Instruction_init_rejects:
  "(name \<notin> set INSTRUCTIONS \<longrightarrow> Instruction_init name v = Inl (InvalidInstruction name)) \<and>
   (name \<in> set INSTRUCTIONS \<and> name \<noteq> ''loadcon'' \<and> v \<noteq> PyNone \<longrightarrow>
      Instruction_init name v = Inl UnexpectedInstructionValue) \<and>
   (name \<noteq> ''loadcon'' \<and> v \<noteq> PyNone \<longrightarrow> isl (Instruction_init name v))"
  using not_loadcon_substring [of name]
  by (auto simp: Instruction_init_def)

theorem Instruction_init_rejects_witness:
  "''foo'' \<notin> set INSTRUCTIONS \<and>
   Instruction_init ''foo'' (PyInt 3) = Inl (InvalidInstruction ''foo'') \<and>
   ''add'' \<in> set INSTRUCTIONS \<and> ''add'' \<noteq> ''loadcon'' \<and> PyInt 3 \<noteq> PyNone \<and>
   Instruction_init ''add'' (PyInt 3) = Inl UnexpectedInstructionValue \<and>
   isl (Instruction_init ''add'' (PyInt 3))"
  using Instruction_init_rejects [of "''foo''" "PyInt 3"]
    Instruction_init_rejects [of "''add''" "PyInt 3"]
  by (simp add: INSTRUCTIONS_def)

section \<open>One iteration of the loop\<close>

text \<open>
  C4. When \<open>br\<close> is executed on a stack with at least one element and the popped offset is
  the integer \<open>k\<close>, the iteration ends with the program counter at its old value plus
  \<open>k + 1\<close> (and with the offset gone from the stack).
\<close>

theorem br_program_counter:
  assumes "instruction_name i = ''br''"
    and "len (value_stack m) \<ge> 1"
    and "pop (value_stack m) = (PyInt k, s')"
  shows "execute i m =
           Inr (m\<lparr>value_stack := s', program_counter := program_counter m + k + 1\<rparr>)"
  using assms by (simp add: execute_def getattr_def br_def)

theorem br_program_counter_witness:
  "instruction_name (Instr ''br'') = ''br'' \<and>
   pop \<lparr>stack_elements = [PyInt 8, PyInt (- 3)], size_limit = 10\<rparr> =
     (PyInt (- 3), \<lparr>stack_elements = [PyInt 8], size_limit = 10\<rparr>) \<and>
   execute (Instr ''br'')
     \<lparr>value_stack = \<lparr>stack_elements = [PyInt 8, PyInt (- 3)], size_limit = 10\<rparr>,
      machine_size_limit = 10, instructions = [Instr ''br''], program_counter = 6,
      written = []\<rparr> =
   Inr \<lparr>value_stack = \<lparr>stack_elements = [PyInt 8], size_limit = 10\<rparr>,
        machine_size_limit = 10, instructions = [Instr ''br''], program_counter = 4,
        written = []\<rparr>"
proof -
  have p: "pop \<lparr>stack_elements = [PyInt 8, PyInt (- 3)], size_limit = 10\<rparr> =
     (PyInt (- 3), \<lparr>stack_elements = [PyInt 8], size_limit = 10\<rparr>)"
    by (simp add: pop_def)
  show ?thesis
    using p
      br_program_counter
        [of "Instr ''br''"
            "\<lparr>value_stack = \<lparr>stack_elements = [PyInt 8, PyInt (- 3)], size_limit = 10\<rparr>,
              machine_size_limit = 10, instructions = [Instr ''br''], program_counter = 6,
              written = []\<rparr>"
            "- 3" "\<lparr>stack_elements = [PyInt 8], size_limit = 10\<rparr>"]
    by (simp add: len_def)
qed

text \<open>
  C7. When \<open>br_false\<close> is executed on a stack with at least two elements, it pops the
  offset, then the condition. If the condition is \<open>1\<close> the iteration only adds one to the
  program counter; for any other condition (\<open>0\<close>, \<open>2\<close>, a negative number, \<open>None\<close>) and an
  integer offset \<open>k\<close> it adds \<open>k + 1\<close>.
\<close>

theorem br_false_program_counter:
  assumes "instruction_name i = ''br_false''"
    and "len (value_stack m) \<ge> 2"
    and "pop (value_stack m) = (offset_index, s1)"
    and "pop s1 = (check_condition, s2)"
  shows "(check_condition = PyInt 1 \<longrightarrow>
            execute i m =
              Inr (m\<lparr>value_stack := s2, program_counter := program_counter m + 1\<rparr>)) \<and>
         (check_condition \<noteq> PyInt 1 \<and> offset_index = PyInt k \<longrightarrow>
            execute i m =
              Inr (m\<lparr>value_stack := s2, program_counter := program_counter m + k + 1\<rparr>))"
  using assms by (simp add: execute_def getattr_def br_false_def TRUE_def)

theorem br_false_program_counter_witness:
  "execute (Instr ''br_false'')
     \<lparr>value_stack = \<lparr>stack_elements = [PyInt 1, PyInt 5], size_limit = 10\<rparr>,
      machine_size_limit = 10, instructions = [Instr ''br_false''], program_counter = 0,
      written = []\<rparr> =
   Inr \<lparr>value_stack = \<lparr>stack_elements = [], size_limit = 10\<rparr>,
        machine_size_limit = 10, instructions = [Instr ''br_false''], program_counter = 1,
        written = []\<rparr> \<and>
   execute (Instr ''br_false'')
     \<lparr>value_stack = \<lparr>stack_elements = [PyInt 2, PyInt 5], size_limit = 10\<rparr>,
      machine_size_limit = 10, instructions = [Instr ''br_false''], program_counter = 0,
      written = []\<rparr> =
   Inr \<lparr>value_stack = \<lparr>stack_elements = [], size_limit = 10\<rparr>,
        machine_size_limit = 10, instructions = [Instr ''br_false''], program_counter = 6,
        written = []\<rparr>"
proof -
  have p1: "pop \<lparr>stack_elements = [PyInt 1, PyInt 5], size_limit = 10\<rparr> =
      (PyInt 5, \<lparr>stack_elements = [PyInt 1], size_limit = 10\<rparr>)"
    and p2: "pop \<lparr>stack_elements = [PyInt 2, PyInt 5], size_limit = 10\<rparr> =
      (PyInt 5, \<lparr>stack_elements = [PyInt 2], size_limit = 10\<rparr>)"
    and q1: "pop \<lparr>stack_elements = [PyInt 1], size_limit = 10\<rparr> =
      (PyInt 1, \<lparr>stack_elements = [], size_limit = 10\<rparr>)"
    and q2: "pop \<lparr>stack_elements = [PyInt 2], size_limit = 10\<rparr> =
      (PyInt 2, \<lparr>stack_elements = [], size_limit = 10\<rparr>)"
    by (simp_all add: pop_def)
  show ?thesis
    using
      br_false_program_counter
        [of "Instr ''br_false''"
            "\<lparr>value_stack = \<lparr>stack_elements = [PyInt 1, PyInt 5], size_limit = 10\<rparr>,
              machine_size_limit = 10, instructions = [Instr ''br_false''],
              program_counter = 0, written = []\<rparr>"
            "PyInt 5" "\<lparr>stack_elements = [PyInt 1], size_limit = 10\<rparr>"
            "PyInt 1" "\<lparr>stack_elements = [], size_limit = 10\<rparr>" 5]
      br_false_program_counter
        [of "Instr ''br_false''"
            "\<lparr>value_stack = \<lparr>stack_elements = [PyInt 2, PyInt 5], size_limit = 10\<rparr>,
              machine_size_limit = 10, instructions = [Instr ''br_false''],
              program_counter = 0, written = []\<rparr>"
            "PyInt 5" "\<lparr>stack_elements = [PyInt 2], size_limit = 10\<rparr>"
            "PyInt 2" "\<lparr>stack_elements = [], size_limit = 10\<rparr>" 5]
    by (simp add: len_def p1 p2 q1 q2)
qed

text \<open>
  C5. When an instruction finds fewer elements on the stack than it needs (one for
  \<open>dup\<close>, \<open>negate\<close>, \<open>write\<close> and \<open>br\<close>; two for \<open>swap\<close>, \<open>add\<close>, \<open>mpy\<close>, \<open>equal\<close>,
  \<open>less\<close> and \<open>br_false\<close>), the iteration raises nothing and changes nothing but the
  program counter, which grows by one; and \<open>run\<close> goes on from that state.
\<close>

theorem underflow_is_noop:
  assumes "(instruction_name i \<in> {''dup'', ''negate'', ''write'', ''br''} \<and>
              len (value_stack m) < 1) \<or>
           (instruction_name i \<in> {''swap'', ''add'', ''mpy'', ''equal'', ''less'', ''br_false''} \<and>
              len (value_stack m) < 2)"
  shows "execute i m = Inr (m\<lparr>program_counter := program_counter m + 1\<rparr>) \<and>
         (\<not> program_counter m > int (length (instructions m)) - 1 \<and>
          py_getitem (instructions m) (program_counter m) = Inr i \<longrightarrow>
            run (Suc fuel) m = run fuel (m\<lparr>program_counter := program_counter m + 1\<rparr>))"
proof -
  have "execute i m = Inr (m\<lparr>program_counter := program_counter m + 1\<rparr>)"
    using assms
    by (auto simp: execute_def getattr_def dup_def negate_def write_def br_def swap_def
        add_def mpy_def equal_def less_def br_false_def)
  then show ?thesis
    by simp
qed

theorem underflow_is_noop_witness:
  "execute (Instr ''add'')
     \<lparr>value_stack = \<lparr>stack_elements = [PyInt 3], size_limit = 10\<rparr>,
      machine_size_limit = 10, instructions = [Instr ''add'', Instr ''write''],
      program_counter = 0, written = []\<rparr> =
   Inr \<lparr>value_stack = \<lparr>stack_elements = [PyInt 3], size_limit = 10\<rparr>,
        machine_size_limit = 10, instructions = [Instr ''add'', Instr ''write''],
        program_counter = 1, written = []\<rparr> \<and>
   run (Suc 2)
     \<lparr>value_stack = \<lparr>stack_elements = [PyInt 3], size_limit = 10\<rparr>,
      machine_size_limit = 10, instructions = [Instr ''add'', Instr ''write''],
      program_counter = 0, written = []\<rparr> =
   run 2
     \<lparr>value_stack = \<lparr>stack_elements = [PyInt 3], size_limit = 10\<rparr>,
      machine_size_limit = 10, instructions = [Instr ''add'', Instr ''write''],
      program_counter = 1, written = []\<rparr>"
  using underflow_is_noop
    [of "Instr ''add''"
        "\<lparr>value_stack = \<lparr>stack_elements = [PyInt 3], size_limit = 10\<rparr>,
          machine_size_limit = 10, instructions = [Instr ''add'', Instr ''write''],
          program_counter = 0, written = []\<rparr>" 2]
  by (simp add: len_def py_getitem_def)

section \<open>Whole runs\<close>

lemmas run_eval =
  run_program_def StackMachine_init_def Stack_init_def eval_nat_numeral execute_def getattr_def
  py_getitem_def loadcon_def br_def write_def push_def pop_def len_def

text \<open>
  C2. The claim is that \<open>[loadcon 1, loadcon 2, br, write, write]\<close> fires exactly one
  \<open>write\<close>, of the value \<open>1\<close>. It fires none: \<open>br\<close> at index \<open>2\<close> pops the offset \<open>2\<close>,
  the counter becomes \<open>2 + 2 + 1 = 5\<close>, which is past the last instruction, and the run
  ends with \<open>1\<close> still on the stack.
\<close>

theorem br_offset_two_counterexample:
  "run_program 4 [Loadcon 1, Loadcon 2, Instr ''br'', Instr ''write'', Instr ''write''] 2 =
   Some (Inr \<lparr>value_stack = \<lparr>stack_elements = [PyInt 1], size_limit = 2\<rparr>,
              machine_size_limit = 2,
              instructions = [Loadcon 1, Loadcon 2, Instr ''br'', Instr ''write'', Instr ''write''],
              program_counter = 5, written = []\<rparr>)"
  by (simp add: run_eval)

text \<open>
  C2, amended. With a stack size of at least two, the run of
  \<open>[loadcon 1, loadcon 2, br, write, write]\<close> ends after four iterations with nothing
  written, the counter at \<open>5\<close> and \<open>1\<close> on the stack: an offset of \<open>2\<close> skips the next two
  instructions. It is the offset \<open>1\<close> that skips exactly the next instruction: the run of
  \<open>[loadcon 1, loadcon 1, br, write, write]\<close> writes once, the value \<open>1\<close>.
\<close>

theorem br_offset_two_skips_both:
  assumes "2 \<le> c"
  shows "run_program (4 + n) [Loadcon 1, Loadcon 2, Instr ''br'', Instr ''write'', Instr ''write''] c =
   Some (Inr \<lparr>value_stack = \<lparr>stack_elements = [PyInt 1], size_limit = c\<rparr>,
              machine_size_limit = c,
              instructions = [Loadcon 1, Loadcon 2, Instr ''br'', Instr ''write'', Instr ''write''],
              program_counter = 5, written = []\<rparr>) \<and>
    run_program (5 + n) [Loadcon 1, Loadcon 1, Instr ''br'', Instr ''write'', Instr ''write''] c =
   Some (Inr \<lparr>value_stack = \<lparr>stack_elements = [], size_limit = c\<rparr>,
              machine_size_limit = c,
              instructions = [Loadcon 1, Loadcon 1, Instr ''br'', Instr ''write'', Instr ''write''],
              program_counter = 5, written = [PyInt 1]\<rparr>)"
  using assms by (simp add: run_eval)

theorem br_offset_two_skips_both_witness:
  "(2::int) \<le> 3 \<and>
   run_program (4 + 0) [Loadcon 1, Loadcon 2, Instr ''br'', Instr ''write'', Instr ''write''] 3 =
   Some (Inr \<lparr>value_stack = \<lparr>stack_elements = [PyInt 1], size_limit = 3\<rparr>,
              machine_size_limit = 3,
              instructions = [Loadcon 1, Loadcon 2, Instr ''br'', Instr ''write'', Instr ''write''],
              program_counter = 5, written = []\<rparr>) \<and>
   run_program (5 + 0) [Loadcon 1, Loadcon 1, Instr ''br'', Instr ''write'', Instr ''write''] 3 =
   Some (Inr \<lparr>value_stack = \<lparr>stack_elements = [], size_limit = 3\<rparr>,
              machine_size_limit = 3,
              instructions = [Loadcon 1, Loadcon 1, Instr ''br'', Instr ''write'', Instr ''write''],
              program_counter = 5, written = [PyInt 1]\<rparr>)"
proof -
  have h: "(2::int) \<le> 3" by simp
  show ?thesis
    using h br_offset_two_skips_both [OF h, of 0] by blast
qed

text \<open>
  C1. The claim is that a program counter below zero ends the run like one past the end.
  The loop only tests \<open>program_counter > len(instructions) - 1\<close>. In the first program
  below \<open>br\<close> leaves the counter at \<open>1 - 5 + 1 = -3\<close>, and the fetch raises \<open>IndexError\<close>.
  In the second \<open>br\<close> at index \<open>2\<close> leaves it at \<open>2 - 4 + 1 = -1\<close> with \<open>4\<close> on the stack; the
  run does not end there: it fetches the last instruction, a \<open>br\<close>, which pops the \<open>4\<close> and
  moves the counter to \<open>-1 + 4 + 1 = 4\<close>, and the run ends two iterations later at \<open>5\<close> with
  an empty stack.
\<close>

theorem negative_counter_fetches:
  "run_program 3 [Loadcon (- 5), Instr ''br''] 10 = Some (Inl IndexError) \<and>
   run_program 6 [Loadcon 4, Loadcon (- 4), Instr ''br'', Loadcon 9, Instr ''br''] 10 =
   Some (Inr \<lparr>value_stack = \<lparr>stack_elements = [], size_limit = 10\<rparr>,
              machine_size_limit = 10,
              instructions = [Loadcon 4, Loadcon (- 4), Instr ''br'', Loadcon 9, Instr ''br''],
              program_counter = 5, written = []\<rparr>)"
  by (simp add: run_eval)

text \<open>
  C9. With the program counter \<open>p\<close> in \<open>[-len(instructions), -1]\<close> an iteration of \<open>run\<close>
  does not stop: it executes \<open>instructions[len(instructions) + p]\<close> and goes on from the
  state that leaves. With \<open>p < -len(instructions)\<close> the fetch raises \<open>IndexError\<close>, which
  nothing catches. A branch can bring this about: \<open>[loadcon -9, br]\<close> raises it.
\<close>

theorem run_negative_counter:
  "(- int (length (instructions m)) \<le> program_counter m \<and> program_counter m \<le> - 1 \<longrightarrow>
      run (Suc fuel) m =
        (case execute (instructions m ! nat (int (length (instructions m)) + program_counter m)) m of
           Inl e \<Rightarrow> Some (Inl e)
         | Inr m' \<Rightarrow> run fuel m')) \<and>
   (program_counter m < - int (length (instructions m)) \<longrightarrow>
      run (Suc fuel) m = Some (Inl IndexError)) \<and>
   run_program 3 [Loadcon (- 9), Instr ''br''] 10 = Some (Inl IndexError)"
proof -
  have "run_program 3 [Loadcon (- 9), Instr ''br''] 10 = Some (Inl IndexError)"
    by (simp add: run_eval)
  then show ?thesis
    by (simp add: py_getitem_def)
qed

theorem run_negative_counter_witness:
  "run (Suc 3)
     \<lparr>value_stack = \<lparr>stack_elements = [], size_limit = 10\<rparr>, machine_size_limit = 10,
      instructions = [Instr ''zero'', Instr ''one''], program_counter = - 1, written = []\<rparr> =
   Some (Inr \<lparr>value_stack = \<lparr>stack_elements = [PyInt 1, PyInt 0, PyInt 1], size_limit = 10\<rparr>,
              machine_size_limit = 10, instructions = [Instr ''zero'', Instr ''one''],
              program_counter = 2, written = []\<rparr>) \<and>
   run (Suc 0)
     \<lparr>value_stack = \<lparr>stack_elements = [], size_limit = 10\<rparr>, machine_size_limit = 10,
      instructions = [Instr ''zero'', Instr ''one''], program_counter = - 3, written = []\<rparr> =
   Some (Inl IndexError)"
  using
    run_negative_counter
      [of "\<lparr>value_stack = \<lparr>stack_elements = [], size_limit = 10\<rparr>, machine_size_limit = 10,
            instructions = [Instr ''zero'', Instr ''one''], program_counter = - 1,
            written = []\<rparr>" 3]
    run_negative_counter
      [of "\<lparr>value_stack = \<lparr>stack_elements = [], size_limit = 10\<rparr>, machine_size_limit = 10,
            instructions = [Instr ''zero'', Instr ''one''], program_counter = - 3,
            written = []\<rparr>" 0]
  by (simp add: eval_nat_numeral execute_def getattr_def py_getitem_def zero_def one_def push_def)

end
